theory Spec2Isabelle
  imports Complex_Main
begin

section \<open>Strings\<close>

text \<open>
  Python \<open>str\<close> values are modelled as \<^typ>\<open>string\<close>. The text handled by the
  formatter (labels, file system names, drive letters, confirmation tokens) is ASCII;
  \<open>upper\<close> maps the ASCII letters and leaves every other character alone.
\<close>

definition is_space :: "char \<Rightarrow> bool" where
  \<comment> \<open>\<open>str.isspace\<close> and the regular expression class \<open>\s\<close> on a one-character string\<close>
  "is_space c = (c \<in> set [CHR 0x20, CHR 0x09, CHR 0x0A, CHR 0x0B, CHR 0x0C, CHR 0x0D,
                            CHR 0x1C, CHR 0x1D, CHR 0x1E, CHR 0x1F, CHR 0x85, CHR 0xA0])"

definition strip :: "string \<Rightarrow> string" where
  \<comment> \<open>\<open>s.strip()\<close>\<close>
  "strip s = rev (dropWhile is_space (rev (dropWhile is_space s)))"

definition strip_chars :: "string \<Rightarrow> string \<Rightarrow> string" where
  \<comment> \<open>\<open>s.strip(cs)\<close>\<close>
  "strip_chars cs s =
     rev (dropWhile (\<lambda>c. c \<in> set cs) (rev (dropWhile (\<lambda>c. c \<in> set cs) s)))"

definition upper_char :: "char \<Rightarrow> char" where
  "upper_char c =
     (case map_of (zip ''abcdefghijklmnopqrstuvwxyz'' ''ABCDEFGHIJKLMNOPQRSTUVWXYZ'') c of
        None \<Rightarrow> c
      | Some u \<Rightarrow> u)"

definition upper :: "string \<Rightarrow> string" where
  \<comment> \<open>\<open>s.upper()\<close>\<close>
  "upper s = map upper_char s"

definition digit_char :: "nat \<Rightarrow> char" where
  "digit_char d = ''0123456789'' ! d"

fun digits :: "nat \<Rightarrow> string" where
  "digits n = (if n < 10 then [digit_char n] else digits (n div 10) @ [digit_char (n mod 10)])"

declare digits.simps [simp del]

definition str_int :: "int \<Rightarrow> string" where
  \<comment> \<open>\<open>str(i)\<close>, also the rendering of an integer inside an f-string\<close>
  "str_int i = (if i < 0 then CHR ''-'' # digits (nat (- i)) else digits (nat i))"

definition is_linebreak :: "char \<Rightarrow> bool" where
  \<comment> \<open>the line boundaries of \<open>str.splitlines\<close>\<close>
  "is_linebreak c = (c \<in> set [CHR 0x0A, CHR 0x0D, CHR 0x0B, CHR 0x0C,
                                CHR 0x1C, CHR 0x1D, CHR 0x1E, CHR 0x85])"

definition last_line :: "string \<Rightarrow> string" where
  \<comment> \<open>\<open>s.splitlines()[-1]\<close> for a stripped, non-empty \<open>s\<close>: the text after the last line boundary\<close>
  "last_line s = rev (takeWhile (\<lambda>c. \<not> is_linebreak c) (rev s))"

function collapse_ws :: "string \<Rightarrow> string" where
  \<comment> \<open>\<open>re.sub(r"\s+", " ", s)\<close>\<close>
  "collapse_ws [] = []"
| "collapse_ws (c # cs) =
     (if is_space c then CHR '' '' # collapse_ws (dropWhile is_space cs)
      else c # collapse_ws cs)"
  by pat_completeness auto
termination
  by (relation "measure length") (auto simp: length_dropWhile_le less_Suc_eq_le)

section \<open>File system and cluster policy\<close>

definition GiB :: "int \<Rightarrow> real" where
  \<comment> \<open>\<open>gb = bytes_size / (1024**3)\<close>: true division. The quotient by a power of two is
      compared with small integers only, which the rounding to a float cannot change; a
      disk size is a 64-bit number, far inside the range of a float.\<close>
  "GiB bytes_size = real_of_int bytes_size / (1024 ^ 3)"

definition suggest_fs :: "int \<Rightarrow> string" where
  "suggest_fs bytes_size = (if GiB bytes_size \<le> 32 then ''FAT32'' else ''exFAT'')"

definition suggest_cluster :: "string \<Rightarrow> int \<Rightarrow> int" where
  \<comment> \<open>the English and the Italian command line tools have the same text here\<close>
  "suggest_cluster fs bytes_size =
     (let gb = GiB bytes_size in
      if upper fs = ''FAT32'' then
        (if gb \<le> 4 then 4096
         else if gb \<le> 8 then 8192
         else if gb \<le> 16 then 16384
         else 32768)
      else if gb \<le> 64 then 131072
      else if gb \<le> 256 then 262144
      else 524288)"

section \<open>Label sanitization\<close>

datatype variant = English | Italian

definition INVALID_LABEL_CHARS :: string where
  \<comment> \<open>the raw string \<open><>:"/\\|?*\<close>, whose two backslashes are two characters\<close>
  "INVALID_LABEL_CHARS =
     [CHR ''<'', CHR ''>'', CHR '':'', CHR 0x22, CHR ''/'', CHR 0x5C, CHR 0x5C,
      CHR ''|'', CHR ''?'', CHR ''*'']"

definition camera_char :: "char \<Rightarrow> bool" where
  \<comment> \<open>the character class \<open>[A-Z0-9 _]\<close>\<close>
  "camera_char c = (c \<in> set ''ABCDEFGHIJKLMNOPQRSTUVWXYZ0123456789 _'')"

definition printable :: "char \<Rightarrow> bool" where
  \<comment> \<open>\<open>32 <= ord(c) < 127\<close>\<close>
  "printable c = ((32::nat) \<le> of_char c \<and> of_char c < (127::nat))"

definition or_default :: "string \<Rightarrow> string" where
  \<comment> \<open>\<open>base or "SD_CARD"\<close>\<close>
  "or_default base = (if base = [] then ''SD_CARD'' else base)"

definition sanitize_label :: "variant \<Rightarrow> string \<Rightarrow> string \<Rightarrow> bool \<Rightarrow> string" where
  \<comment> \<open>\<open>sanitize_label(label, fs, camera_compat)\<close>; only the English tool removes the
      two quote characters after stripping\<close>
  "sanitize_label v label fs camera_compat =
     (let raw = strip label;
          raw = (case v of
                   English \<Rightarrow> filter (\<lambda>c. c \<noteq> CHR 0x27 \<and> c \<noteq> CHR 0x22) raw
                 | Italian \<Rightarrow> raw)
      in if camera_compat then
           (let base = map (\<lambda>c. if camera_char c then c else CHR ''_'') (upper raw);
                base = strip (collapse_ws base);
                base = take 11 base
            in or_default base)
         else
           (let base = filter (\<lambda>c. printable c \<and> c \<notin> set INVALID_LABEL_CHARS) raw;
                base = take 32 (strip_chars ''. '' base)
            in or_default base))"

section \<open>Safety gate\<close>

datatype py_exc =
    ValueError string
  | PermissionError string
  | RuntimeError string
  | PSError string
  | AttributeError string
  | IndexError string
  | TypeError string
  | JSONDecodeError

record part_row =
  PartitionNumber :: int

record disk =
  number :: int
  size :: int
  bus_type :: string
  friendly_name :: string
  is_system :: bool
  is_boot :: bool
  is_readonly :: bool
  is_offline :: bool
  unique_id :: string
  partition_style :: string
  letters :: "string list"
  partitions :: "part_row list"

definition ensure_safe_target :: "variant \<Rightarrow> disk \<Rightarrow> py_exc + unit" where
  \<comment> \<open>the Italian tool stops after the read-only check\<close>
  "ensure_safe_target v d =
     (if is_system d \<or> is_boot d then
        Inl (PermissionError (case v of
          English \<Rightarrow> ''Safety lock: selected disk appears to be a system/boot disk.''
        | Italian \<Rightarrow> ''Protezione attiva: il disco selezionato risulta di sistema/boot.''))
      else if is_readonly d then
        Inl (PermissionError (case v of
          English \<Rightarrow> ''The disk is read-only. Disable write protection and try again.''
        | Italian \<Rightarrow> ''Il disco '' @ [CHR 0xE8] @
            '' in sola lettura. Rimuovi l'' @ [CHR 0x27] @
            ''interruttore di protezione scrittura e riprova.''))
      else (case v of
          English \<Rightarrow>
            if size d \<noteq> 0 \<and> size d < 64 * 1024 * 1024
            then Inl (ValueError ''Disk is too small to format (less than 64 MB).'')
            else Inr ()
        | Italian \<Rightarrow> Inr ()))"

section \<open>PowerShell helpers\<close>

text \<open>
  A script handed to \<open>run_ps\<close> is an f-string over a few parameters; it is modelled by a
  constructor that carries those parameters. The operating system is a parameter of the
  model: an executor maps its state and a script to the completed process and the state
  afterwards. The state of a run pairs the operating system with the list of the processes
  that were really spawned. Logging is not modelled.
\<close>

datatype ps_cmd =
    GetDisk                 \<comment> \<open>\<open>Get-Disk | Select-Object ...\<close>, piped to \<open>ConvertTo-Json\<close>\<close>
  | GetPartition int        \<comment> \<open>\<open>Get-Partition -DiskNumber n\<close>, piped to \<open>ConvertTo-Json\<close>\<close>
  | GetVolumeLetters int    \<comment> \<open>\<open>Get-Partition | Get-Volume | Select-Object DriveLetter\<close>\<close>
  | DismountVolumes int     \<comment> \<open>the script of \<open>dismount_volumes\<close>\<close>
  | ZeroFill int            \<comment> \<open>\<open>diskpart\<close>: \<open>select disk n\<close>, \<open>clean all\<close>\<close>
  | ClearInit int string    \<comment> \<open>\<open>Clear-Disk -RemoveData\<close>, then \<open>Initialize-Disk -PartitionStyle\<close>\<close>
  | CreateFormat int string string "int option" bool
      \<comment> \<open>\<open>New-Partition\<close>, then \<open>Format-Volume\<close> with file system, label,
          \<open>-AllocationUnitSize\<close> when given, quick\<close>
  | GetVolume string        \<comment> \<open>\<open>Get-Volume -DriveLetter\<close>, printing \<open>FileSystem|FileSystemLabel\<close>\<close>

fun mutating :: "ps_cmd \<Rightarrow> bool" where
  "mutating GetDisk = False"
| "mutating (GetPartition n) = False"
| "mutating (GetVolumeLetters n) = False"
| "mutating (GetVolume l) = False"
| "mutating (DismountVolumes n) = True"
| "mutating (ZeroFill n) = True"
| "mutating (ClearInit n style) = True"
| "mutating (CreateFormat n fs label au quick) = True"

record proc =
  returncode :: int
  stdout :: string
  stderr :: string

datatype 'a json_top = JObject 'a | JArray "'a list"

record disk_row =
  Number :: int
  Size :: "int option"
  BusType :: "string option"
  FriendlyName :: "string option"
  IsSystem :: "bool option"
  IsBoot :: "bool option"
  IsReadOnly :: "bool option"
  IsOffline :: "bool option"
  UniqueId :: "string option"
  PartitionStyle :: "string option"

record letter_row =
  DriveLetter :: "string option"

text \<open>
  \<open>json.loads\<close> is a parameter too, one decoder for each of the three queries: it gives
  the rows of the answer, a single object or an array of them, with \<open>None\<close> for a JSON
  null or an absent key, and fails (\<open>None\<close>) for text that is not JSON.
\<close>

record 'w env =
  exec :: "'w \<Rightarrow> ps_cmd \<Rightarrow> proc \<times> 'w"
  file_io :: "'w \<Rightarrow> string \<Rightarrow> int \<Rightarrow> (string + int) \<times> 'w"
  loads_disks :: "string \<Rightarrow> disk_row json_top option"
  loads_parts :: "string \<Rightarrow> part_row json_top option"
  loads_letters :: "string \<Rightarrow> letter_row json_top option"

record 'w st =
  world :: 'w
  spawned :: "ps_cmd list"

definition Dummy :: proc where
  "Dummy = \<lparr>returncode = 0, stdout = [], stderr = []\<rparr>"

definition run_ps ::
  "'w env \<Rightarrow> ps_cmd \<Rightarrow> bool \<Rightarrow> 'w st \<Rightarrow> (py_exc + proc) \<times> 'w st" where
  "run_ps env script dry_run s =
     (if dry_run then (Inr Dummy, s)
      else
        (let (p, w) = exec env (world s) script;
             s' = s\<lparr>world := w, spawned := spawned s @ [script]\<rparr>
         in if returncode p \<noteq> 0 then
              (let err = strip (stderr p)
               in (Inl (PSError (if err = [] then ''PowerShell error'' else err)), s'))
            else (Inr p, s')))"

definition ps_json ::
  "(string \<Rightarrow> 'a json_top option) \<Rightarrow> 'w env \<Rightarrow> ps_cmd \<Rightarrow> bool \<Rightarrow> 'w st \<Rightarrow>
     (py_exc + 'a json_top) \<times> 'w st" where
  \<comment> \<open>the byte order mark of the second attempt is outside the modelled alphabet\<close>
  "ps_json loads env script dry_run s =
     (case run_ps env script dry_run s of
        (Inl e, s') \<Rightarrow> (Inl e, s')
      | (Inr p, s') \<Rightarrow>
          (let text = strip (stdout p)
           in if text = [] then (Inr (JArray []), s')
              else
                (case loads text of
                   Some j \<Rightarrow> (Inr j, s')
                 | None \<Rightarrow>
                     (let cleaned = strip_chars [CHR '' '', CHR 0x0A, CHR 0x0D, CHR 0x09] text
                      in if cleaned = [] then (Inr (JArray []), s')
                         else
                           (case loads cleaned of
                              Some j \<Rightarrow> (Inr j, s')
                            | None \<Rightarrow> (Inl JSONDecodeError, s'))))))"

section \<open>Disk enumeration\<close>

fun as_list :: "'a json_top \<Rightarrow> 'a list" where
  \<comment> \<open>\<open>if isinstance(x, dict): x = [x]\<close>\<close>
  "as_list (JObject d) = [d]"
| "as_list (JArray ds) = ds"

definition str_or_empty :: "string option \<Rightarrow> string" where
  \<comment> \<open>\<open>str(x or "")\<close>\<close>
  "str_or_empty x = (case x of None \<Rightarrow> [] | Some t \<Rightarrow> t)"

definition bool_or_false :: "bool option \<Rightarrow> bool" where
  \<comment> \<open>\<open>bool(d.get(k, False))\<close>\<close>
  "bool_or_false x = (case x of None \<Rightarrow> False | Some b \<Rightarrow> b)"

definition volume_letters :: "letter_row list \<Rightarrow> string list" where
  "volume_letters vs = filter (\<lambda>dl. dl \<noteq> []) (map (\<lambda>v. strip (str_or_empty (DriveLetter v))) vs)"

definition row_size :: "variant \<Rightarrow> disk_row \<Rightarrow> py_exc + int" where
  \<comment> \<open>English: \<open>int(d.get("Size") or 0)\<close>; Italian: \<open>int(d["Size"])\<close>\<close>
  "row_size v d =
     (case Size d of
        Some n \<Rightarrow> Inr n
      | None \<Rightarrow>
          (case v of
             English \<Rightarrow> Inr 0
           | Italian \<Rightarrow> Inl (TypeError ''int() argument must be a string, a bytes-like object or a real number, not NoneType'')))"

fun list_disks_loop ::
  "variant \<Rightarrow> 'w env \<Rightarrow> bool \<Rightarrow> disk_row list \<Rightarrow> disk list \<Rightarrow> 'w st \<Rightarrow>
     (py_exc + disk list) \<times> 'w st" where
  "list_disks_loop v env dry_run [] results s = (Inr results, s)"
| "list_disks_loop v env dry_run (d # ds) results s =
     (case ps_json (loads_parts env) env (GetPartition (Number d)) dry_run s of
        (Inl e, s1) \<Rightarrow> (Inl e, s1)
      | (Inr pj, s1) \<Rightarrow>
          (case (if as_list pj \<noteq> [] then
                   (case ps_json (loads_letters env) env (GetVolumeLetters (Number d)) dry_run s1 of
                      (Inl e, s2) \<Rightarrow> (Inl e, s2)
                    | (Inr vj, s2) \<Rightarrow> (Inr (volume_letters (as_list vj)), s2))
                 else (Inr [], s1)) of
             (Inl e, s2) \<Rightarrow> (Inl e, s2)
           | (Inr ls, s2) \<Rightarrow>
               (case row_size v d of
                  Inl e \<Rightarrow> (Inl e, s2)
                | Inr sz \<Rightarrow>
                    list_disks_loop v env dry_run ds
                      (results @
                        [\<lparr>number = Number d, size = sz,
                          bus_type = str_or_empty (BusType d),
                          friendly_name = str_or_empty (FriendlyName d),
                          is_system = bool_or_false (IsSystem d),
                          is_boot = bool_or_false (IsBoot d),
                          is_readonly = bool_or_false (IsReadOnly d),
                          is_offline = bool_or_false (IsOffline d),
                          unique_id = str_or_empty (UniqueId d),
                          partition_style = str_or_empty (PartitionStyle d),
                          letters = ls, partitions = as_list pj\<rparr>]) s2)))"

definition list_disks ::
  "variant \<Rightarrow> 'w env \<Rightarrow> bool \<Rightarrow> 'w st \<Rightarrow> (py_exc + disk list) \<times> 'w st" where
  "list_disks v env dry_run s =
     (case ps_json (loads_disks env) env GetDisk dry_run s of
        (Inl e, s') \<Rightarrow> (Inl e, s')
      | (Inr discs, s') \<Rightarrow> list_disks_loop v env dry_run (as_list discs) [] s')"

section \<open>Formatting pipeline\<close>

definition dismount_volumes :: "'w env \<Rightarrow> int \<Rightarrow> bool \<Rightarrow> 'w st \<Rightarrow> (py_exc + unit) \<times> 'w st" where
  "dismount_volumes env disk_number dry_run s =
     (case run_ps env (DismountVolumes disk_number) dry_run s of
        (Inl e, s') \<Rightarrow> (Inl e, s')
      | (Inr p, s') \<Rightarrow> (Inr (), s'))"

definition disk_zero_fill_diskpart ::
  "'w env \<Rightarrow> int \<Rightarrow> bool \<Rightarrow> 'w st \<Rightarrow> (py_exc + unit) \<times> 'w st" where
  "disk_zero_fill_diskpart env disk_number dry_run s =
     (case run_ps env (ZeroFill disk_number) dry_run s of
        (Inl e, s') \<Rightarrow> (Inl e, s')
      | (Inr p, s') \<Rightarrow> (Inr (), s'))"

definition clear_and_init ::
  "'w env \<Rightarrow> int \<Rightarrow> string \<Rightarrow> string \<Rightarrow> bool \<Rightarrow> 'w st \<Rightarrow> (py_exc + unit) \<times> 'w st" where
  "clear_and_init env disk_number style wipe dry_run s =
     (case (if wipe = ''zero-all'' then disk_zero_fill_diskpart env disk_number dry_run s
            else (Inr (), s)) of
        (Inl e, s1) \<Rightarrow> (Inl e, s1)
      | (Inr u, s1) \<Rightarrow>
          (case run_ps env (ClearInit disk_number style) dry_run s1 of
             (Inl e, s2) \<Rightarrow> (Inl e, s2)
           | (Inr p, s2) \<Rightarrow> (Inr (), s2)))"

definition create_partition_and_format ::
  "'w env \<Rightarrow> int \<Rightarrow> string \<Rightarrow> string \<Rightarrow> int option \<Rightarrow> bool \<Rightarrow> bool \<Rightarrow> 'w st \<Rightarrow>
     (py_exc + string) \<times> 'w st" where
  \<comment> \<open>\<open>au\<close> is empty for a cluster that is \<open>None\<close> or zero; \<open>splitlines()[-1]\<close> of an
      output of white space only raises\<close>
  "create_partition_and_format env disk_number fs label cluster quick dry_run s =
     (let au = (case cluster of None \<Rightarrow> None | Some c \<Rightarrow> if c \<noteq> 0 then Some c else None)
      in case run_ps env (CreateFormat disk_number fs label au quick) dry_run s of
           (Inl e, s') \<Rightarrow> (Inl e, s')
         | (Inr p, s') \<Rightarrow>
             (if stdout p = [] then (Inr [], s')
              else if strip (stdout p) = [] then (Inl (IndexError ''list index out of range''), s')
              else (Inr (strip (last_line (strip (stdout p)))), s')))"

definition split_bar :: "string \<Rightarrow> string \<times> string" where
  \<comment> \<open>\<open>out.split("|", 1)\<close> for an \<open>out\<close> that contains the bar\<close>
  "split_bar out =
     (takeWhile (\<lambda>c. c \<noteq> CHR ''|'') out, drop 1 (dropWhile (\<lambda>c. c \<noteq> CHR ''|'') out))"

definition verify_volume ::
  "'w env \<Rightarrow> string \<Rightarrow> string \<Rightarrow> string \<Rightarrow> bool \<Rightarrow> 'w st \<Rightarrow> (py_exc + bool) \<times> 'w st" where
  "verify_volume env drive_letter expected_fs expected_label dry_run s =
     (if drive_letter = [] then (Inr False, s)
      else
        (case run_ps env (GetVolume drive_letter) dry_run s of
           (Inl e, s') \<Rightarrow> (Inl e, s')
         | (Inr p, s') \<Rightarrow>
             (let out = strip (stdout p)
              in if out = [] \<or> CHR ''|'' \<notin> set out then (Inr False, s')
                 else
                   (let (fs, label) = split_bar out
                    in (Inr (upper fs = upper expected_fs \<and> label = expected_label), s')))))"

definition size_mismatch_msg :: "variant \<Rightarrow> int \<Rightarrow> int \<Rightarrow> string" where
  "size_mismatch_msg v sz written =
     (case v of
        English \<Rightarrow> ''Size mismatch (read '' @ str_int sz @ '' vs written '' @ str_int written @ '')''
      | Italian \<Rightarrow> ''Dimensione letta '' @ str_int sz @ '' diversa da scritta '' @ str_int written)"

definition test_io ::
  "variant \<Rightarrow> 'w env \<Rightarrow> string \<Rightarrow> int \<Rightarrow> bool \<Rightarrow> 'w st \<Rightarrow> (bool \<times> string) \<times> 'w st" where
  \<comment> \<open>\<open>file_io\<close> stands for the guarded block that writes \<open>size_mb\<close> chunks of one MiB and
      reads the size back: the text of the exception it raised, or the size it read. Only
      the English tool looks at the drive letter first.\<close>
  "test_io v env drive_letter size_mb dry_run s =
     (if dry_run then ((True, ''dry-run''), s)
      else if v = English \<and> drive_letter = [] then ((False, ''No drive letter available''), s)
      else
        (let (out, w) = file_io env (world s) drive_letter size_mb;
             s' = s\<lparr>world := w\<rparr>;
             written = (if 0 < size_mb then size_mb else 0) * (1024 * 1024)
         in case out of
              Inl msg \<Rightarrow> ((False, msg), s')
            | Inr sz \<Rightarrow>
                if sz \<noteq> written then ((False, size_mismatch_msg v sz written), s')
                else ((True, ''OK''), s')))"

section \<open>Orchestration\<close>

datatype cluster_arg = ClusterNone | ClusterStr string | ClusterInt int

record args =
  arg_disk :: int
  arg_label :: string
  arg_fs :: string
  arg_quick :: bool
  arg_cluster :: cluster_arg
  arg_gpt :: bool
  arg_camera_compat :: bool
  arg_wipe :: string
  arg_test_io :: bool
  arg_test_io_size :: int
  arg_dry_run :: bool
  arg_yes :: bool
  arg_skip_verify :: "bool option"
    \<comment> \<open>\<open>None\<close>: the namespace has no such attribute, as the one \<open>parse_args\<close> builds\<close>

text \<open>
  The result dictionary. A key that is not set yet is \<open>None\<close>; the cluster is \<open>None\<close>
  for \<open>"DEFAULT"\<close>. The keys that echo the application name and version, the bus type,
  the friendly name and the unique id (English tool only), and the duration, are left out.
\<close>

record result =
  r_disk :: int
  r_size :: int
  r_fs :: string
  r_style :: string
  r_label :: string
  r_cluster :: "int option"
  r_quick :: bool
  r_wipe :: string
  r_camera_compat :: bool
  r_dry_run :: bool
  r_steps :: "string list"
  r_drive_letter :: "string option"
  r_verify :: "string option"
  r_test_io :: "(bool \<times> string \<times> int) option"
  r_status :: "string option"
  r_error :: "string option"

fun str_exc :: "py_exc \<Rightarrow> string" where
  \<comment> \<open>\<open>str(e)\<close>\<close>
  "str_exc (ValueError m) = m"
| "str_exc (PermissionError m) = m"
| "str_exc (RuntimeError m) = m"
| "str_exc (PSError m) = m"
| "str_exc (AttributeError m) = m"
| "str_exc (IndexError m) = m"
| "str_exc (TypeError m) = m"
| "str_exc JSONDecodeError = ''Expecting value''"

definition not_found_msg :: "variant \<Rightarrow> int \<Rightarrow> string" where
  "not_found_msg v n =
     (case v of
        English \<Rightarrow> ''Disk #'' @ str_int n @ '' not found.''
      | Italian \<Rightarrow> ''Disco #'' @ str_int n @ '' non trovato.'')"

definition confirm_mismatch_msg :: "variant \<Rightarrow> string" where
  "confirm_mismatch_msg v =
     (case v of
        English \<Rightarrow> ''Confirmation mismatch. Operation cancelled.''
      | Italian \<Rightarrow> ''Conferma non valida. Operazione annullata.'')"

definition verify_failed_msg :: "variant \<Rightarrow> string" where
  "verify_failed_msg v =
     (case v of
        English \<Rightarrow> ''Post-format verification failed.''
      | Italian \<Rightarrow> ''Verifica post-format fallita.'')"

definition io_failed_msg :: "variant \<Rightarrow> string \<Rightarrow> string" where
  "io_failed_msg v msg =
     (case v of
        English \<Rightarrow> ''I/O test failed: '' @ msg
      | Italian \<Rightarrow> ''Test I/O fallito: '' @ msg)"

definition no_skip_verify_msg :: string where
  "no_skip_verify_msg =
     [CHR 0x27] @ ''Namespace'' @ [CHR 0x27] @ '' object has no attribute '' @
     [CHR 0x27] @ ''skip_verify'' @ [CHR 0x27]"

definition select_cluster :: "variant \<Rightarrow> cluster_arg \<Rightarrow> string \<Rightarrow> int \<Rightarrow> py_exc + int option" where
  \<comment> \<open>the cluster selection of \<open>run_format_pipeline\<close>; only the English tool rejects a
      non-positive integer\<close>
  "select_cluster v c fs bytes_size =
     (case c of
        ClusterNone \<Rightarrow> Inr None
      | ClusterStr t \<Rightarrow>
          if t = [] then Inr None
          else if upper t = ''AUTO'' then Inr (Some (suggest_cluster fs bytes_size))
          else Inr None
      | ClusterInt n \<Rightarrow>
          if n = 0 then Inr None
          else if v = English \<and> n \<le> 0
          then Inl (ValueError ''Cluster size must be a positive integer.'')
          else Inr (Some n))"

definition resolve_policy ::
  "variant \<Rightarrow> args \<Rightarrow> disk \<Rightarrow> py_exc + (string \<times> string \<times> int option \<times> string)" where
  \<comment> \<open>file system, label, cluster and partition style, as \<open>run_format_pipeline\<close> computes
      them between the safety gate and the confirmation\<close>
  "resolve_policy v a target =
     (let fs = upper (arg_fs a);
          fs = (if fs = ''AUTO'' then suggest_fs (size target) else fs);
          label = sanitize_label v (arg_label a) fs (arg_camera_compat a)
      in case select_cluster v (arg_cluster a) fs (size target) of
           Inl e \<Rightarrow> Inl e
         | Inr cluster \<Rightarrow> Inr (fs, label, cluster, if arg_gpt a then ''GPT'' else ''MBR''))"

definition initial_result ::
  "args \<Rightarrow> disk \<Rightarrow> string \<Rightarrow> string \<Rightarrow> int option \<Rightarrow> string \<Rightarrow> result" where
  "initial_result a target fs label cluster style =
     \<lparr>r_disk = number target, r_size = size target, r_fs = fs, r_style = style,
      r_label = label,
      r_cluster = (case cluster of None \<Rightarrow> None | Some c \<Rightarrow> if c \<noteq> 0 then Some c else None),
      r_quick = arg_quick a, r_wipe = arg_wipe a, r_camera_compat = arg_camera_compat a,
      r_dry_run = arg_dry_run a, r_steps = [], r_drive_letter = None, r_verify = None,
      r_test_io = None, r_status = None, r_error = None\<rparr>"

text \<open>
  The body of the \<open>try\<close> block threads the result dictionary: it ends with the
  exception that left the block, if any, and the dictionary as it was at that moment.
\<close>

definition io_step ::
  "variant \<Rightarrow> 'w env \<Rightarrow> args \<Rightarrow> result \<Rightarrow> 'w st \<Rightarrow> (py_exc option \<times> result) \<times> 'w st" where
  "io_step v env a r s =
     (if arg_test_io a then
        (let ((ok, msg), s') =
               test_io v env (case r_drive_letter r of None \<Rightarrow> [] | Some l \<Rightarrow> l)
                 (arg_test_io_size a) (arg_dry_run a) s;
             r' = r\<lparr>r_test_io := Some (ok, msg, arg_test_io_size a)\<rparr>
         in if \<not> ok then ((Some (RuntimeError (io_failed_msg v msg)), r'), s')
            else ((None, r'), s'))
      else ((None, r), s))"

definition verify_step ::
  "variant \<Rightarrow> 'w env \<Rightarrow> args \<Rightarrow> string \<Rightarrow> string \<Rightarrow> string \<Rightarrow> result \<Rightarrow> 'w st \<Rightarrow>
     (py_exc option \<times> result) \<times> 'w st" where
  "verify_step v env a dl fs label r s =
     (case arg_skip_verify a of
        None \<Rightarrow> ((Some (AttributeError no_skip_verify_msg), r), s)
      | Some True \<Rightarrow> ((None, r), s)
      | Some False \<Rightarrow>
          (case verify_volume env dl fs label (arg_dry_run a) s of
             (Inl e, s') \<Rightarrow> ((Some e, r), s')
           | (Inr ok, s') \<Rightarrow>
               (let r' = r\<lparr>r_verify := Some (if ok then ''OK'' else ''FAILED'')\<rparr>
                in if \<not> ok then ((Some (RuntimeError (verify_failed_msg v)), r'), s')
                   else ((None, r'), s'))))"

definition pipeline_body ::
  "variant \<Rightarrow> 'w env \<Rightarrow> args \<Rightarrow> disk \<Rightarrow> string \<Rightarrow> string \<Rightarrow> int option \<Rightarrow> string \<Rightarrow>
     result \<Rightarrow> 'w st \<Rightarrow> (py_exc option \<times> result) \<times> 'w st" where
  "pipeline_body v env a target fs label cluster style r s =
     (case dismount_volumes env (number target) (arg_dry_run a) s of
        (Inl e, s1) \<Rightarrow> ((Some e, r), s1)
      | (Inr u, s1) \<Rightarrow>
          (let r1 = r\<lparr>r_steps := r_steps r @ [''dismount_volumes'']\<rparr>
           in case clear_and_init env (number target) style (arg_wipe a) (arg_dry_run a) s1 of
                (Inl e, s2) \<Rightarrow> ((Some e, r1), s2)
              | (Inr u, s2) \<Rightarrow>
                  (let r2 = r1\<lparr>r_steps := r_steps r1 @ [''clear_and_init'']\<rparr>
                   in case create_partition_and_format env (number target) fs label cluster
                             (arg_quick a) (arg_dry_run a) s2 of
                        (Inl e, s3) \<Rightarrow> ((Some e, r2), s3)
                      | (Inr dl, s3) \<Rightarrow>
                          (let r3 = r2\<lparr>r_drive_letter := Some dl,
                                       r_steps := r_steps r2 @ [''create_partition_and_format'']\<rparr>
                           in case verify_step v env a dl fs label r3 s3 of
                                ((Some e, r4), s4) \<Rightarrow> ((Some e, r4), s4)
                              | ((None, r4), s4) \<Rightarrow> io_step v env a r4 s4))))"

definition run_format_pipeline ::
  "variant \<Rightarrow> 'w env \<Rightarrow> args \<Rightarrow> string \<Rightarrow> 'w st \<Rightarrow> (py_exc + result) \<times> 'w st" where
  \<comment> \<open>\<open>typed\<close> is the line that \<open>input\<close> returns, read only when \<open>args.yes\<close> is false.
      \<open>Inl\<close>: the exception leaves the function, no result is returned.\<close>
  "run_format_pipeline v env a typed s =
     (case list_disks v env (arg_dry_run a) s of
        (Inl e, s0) \<Rightarrow> (Inl e, s0)
      | (Inr disks, s0) \<Rightarrow>
          (case find (\<lambda>d. number d = arg_disk a) disks of
             None \<Rightarrow> (Inl (ValueError (not_found_msg v (arg_disk a))), s0)
           | Some target \<Rightarrow>
               (case ensure_safe_target v target of
                  Inl e \<Rightarrow> (Inl e, s0)
                | Inr u \<Rightarrow>
                    (case resolve_policy v a target of
                       Inl e \<Rightarrow> (Inl e, s0)
                     | Inr (fs, label, cluster, style) \<Rightarrow>
                         if \<not> arg_yes a \<and>
                            strip typed \<noteq> ''CONFIRM-'' @ str_int (number target)
                         then (Inl (RuntimeError (confirm_mismatch_msg v)), s0)
                         else
                           (case pipeline_body v env a target fs label cluster style
                                   (initial_result a target fs label cluster style) s0 of
                              ((None, r), s1) \<Rightarrow>
                                (Inr (r\<lparr>r_status := Some ''OK''\<rparr>), s1)
                            | ((Some e, r), s1) \<Rightarrow>
                                (Inr (r\<lparr>r_status := Some ''ERROR'',
                                         r_error := Some (str_exc e)\<rparr>), s1))))))"

section \<open>Graphical front end\<close>

text \<open>
  \<open>FormatWorker._run_pipeline\<close> of the graphical tool issues one command per step through
  \<open>run_powershell\<close>. The cancellation flag is set by another thread; \<open>cancelled k\<close> is
  its value at the \<open>k\<close>-th call of \<open>_check_cancel\<close>. Progress signals are not modelled.
\<close>

datatype gui_cmd =
    ListDisksScript         \<comment> \<open>the enumeration script of \<open>list_disks\<close>\<close>
  | SetDisk int             \<comment> \<open>\<open>Set-Disk -IsOffline $false -IsReadOnly $false\<close>\<close>
  | ClearDisk int bool      \<comment> \<open>\<open>Clear-Disk\<close>, with \<open>-RemoveData\<close> or \<open>-RemoveData:$false\<close>\<close>
  | InitializeDisk int      \<comment> \<open>\<open>Initialize-Disk -PartitionStyle MBR\<close>\<close>
  | NewPartition int        \<comment> \<open>\<open>New-Partition -UseMaximumSize -AssignDriveLetter\<close>\<close>
  | FormatVolume string string "string option" "int option" bool
      \<comment> \<open>drive letter, file system, label and allocation unit when given, full\<close>

fun gui_mutating :: "gui_cmd \<Rightarrow> bool" where
  "gui_mutating ListDisksScript = False"
| "gui_mutating c = True"

record gui_row =
  G_Number :: int
  G_Size :: "int option"
  G_BusType :: "string option"
  G_FriendlyName :: "string option"
  G_IsSystem :: "bool option"
  G_IsBoot :: "bool option"
  G_IsReadOnly :: "bool option"
  G_PartitionStyle :: "string option"
  G_Letters :: "string list option"

record DiskInfo =
  di_number :: int
  di_size :: int
  di_bus_type :: string
  di_friendly_name :: string
  di_is_system :: bool
  di_is_boot :: bool
  di_is_readonly :: bool
  di_partition_style :: string
  di_letters :: "string list"

record 'w genv =
  is_windows :: bool
  powershell :: bool        \<comment> \<open>whether \<open>shutil.which\<close> finds the executable\<close>
  gexec :: "'w \<Rightarrow> gui_cmd \<Rightarrow> proc \<times> 'w"
  gloads :: "string \<Rightarrow> gui_row json_top option"

record 'w gst =
  gworld :: 'w
  gspawned :: "gui_cmd list"

definition run_powershell ::
  "'w genv \<Rightarrow> gui_cmd \<Rightarrow> 'w gst \<Rightarrow> (py_exc + proc) \<times> 'w gst" where
  "run_powershell g ps_command s =
     (if \<not> powershell g then (Inl (RuntimeError ''PowerShell non trovato nel PATH.''), s)
      else
        (let (cp, w) = gexec g (gworld s) ps_command
         in (Inr cp, s\<lparr>gworld := w, gspawned := gspawned s @ [ps_command]\<rparr>)))"

definition stderr_or :: "proc \<Rightarrow> string \<Rightarrow> string" where
  \<comment> \<open>\<open>cp.stderr.strip() or fallback\<close>\<close>
  "stderr_or cp fallback = (if strip (stderr cp) = [] then fallback else strip (stderr cp))"

definition run_powershell_json ::
  "'w genv \<Rightarrow> gui_cmd \<Rightarrow> 'w gst \<Rightarrow> (py_exc + gui_row json_top option) \<times> 'w gst" where
  "run_powershell_json g ps_command s =
     (case run_powershell g ps_command s of
        (Inl e, s') \<Rightarrow> (Inl e, s')
      | (Inr cp, s') \<Rightarrow>
          if returncode cp \<noteq> 0
          then (Inl (RuntimeError (stderr_or cp ''Errore PowerShell sconosciuto.'')), s')
          else if strip (stdout cp) = [] then (Inr None, s')
          else
            (case gloads g (strip (stdout cp)) of
               Some j \<Rightarrow> (Inr (Some j), s')
             | None \<Rightarrow> (Inl (RuntimeError ''JSON non valido da PowerShell''), s')))"

definition gui_list_disks :: "'w genv \<Rightarrow> 'w gst \<Rightarrow> (py_exc + DiskInfo list) \<times> 'w gst" where
  "gui_list_disks g s =
     (if \<not> is_windows g then (Inl (RuntimeError ''Questa app supporta solo Windows.''), s)
      else
        (case run_powershell_json g ListDisksScript s of
           (Inl e, s') \<Rightarrow> (Inl e, s')
         | (Inr None, s') \<Rightarrow> (Inr [], s')
         | (Inr (Some data), s') \<Rightarrow>
             (Inr (map (\<lambda>d. \<lparr>di_number = G_Number d,
                              di_size = (case G_Size d of None \<Rightarrow> 0 | Some n \<Rightarrow> n),
                              di_bus_type = str_or_empty (G_BusType d),
                              di_friendly_name = str_or_empty (G_FriendlyName d),
                              di_is_system = bool_or_false (G_IsSystem d),
                              di_is_boot = bool_or_false (G_IsBoot d),
                              di_is_readonly = bool_or_false (G_IsReadOnly d),
                              di_partition_style = str_or_empty (G_PartitionStyle d),
                              di_letters = (case G_Letters d of None \<Rightarrow> [] | Some ls \<Rightarrow> ls)\<rparr>)
                       (as_list data)), s')))"

definition lower_char :: "char \<Rightarrow> char" where
  "lower_char c =
     (case map_of (zip ''ABCDEFGHIJKLMNOPQRSTUVWXYZ'' ''abcdefghijklmnopqrstuvwxyz'') c of
        None \<Rightarrow> c
      | Some l \<Rightarrow> l)"

definition lower :: "string \<Rightarrow> string" where
  "lower t = map lower_char t"

definition is_digit :: "char \<Rightarrow> bool" where
  "is_digit c = (c \<in> set ''0123456789'')"

definition digit_val :: "char \<Rightarrow> int" where
  "digit_val c = int (of_char c) - 48"

fun no_double_underscore :: "string \<Rightarrow> bool" where
  "no_double_underscore (a # b # cs) =
     (\<not> (a = CHR ''_'' \<and> b = CHR ''_'') \<and> no_double_underscore (b # cs))"
| "no_double_underscore cs = True"

definition py_int :: "string \<Rightarrow> int option" where
  \<comment> \<open>\<open>int(t)\<close> for a token without white space: an optional sign, then decimal digits,
      single underscores between digits allowed; \<open>None\<close> where Python raises\<close>
  "py_int t =
     (let (neg, ds) =
            (case t of
               [] \<Rightarrow> (False, [])
             | c # cs \<Rightarrow>
                 if c = CHR ''-'' then (True, cs)
                 else if c = CHR ''+'' then (False, cs)
                 else (False, t))
      in if ds = [] \<or> \<not> list_all (\<lambda>c. is_digit c \<or> c = CHR ''_'') ds
            \<or> \<not> is_digit (hd ds) \<or> \<not> is_digit (last ds) \<or> \<not> no_double_underscore ds
         then None
         else
           (let n = foldl (\<lambda>acc c. 10 * acc + digit_val c) 0 (filter is_digit ds)
            in Some (if neg then - n else n)))"

definition cluster_bytes_from_label :: "string \<Rightarrow> py_exc + int option" where
  \<comment> \<open>\<open>label.split()[0]\<close> is outside the \<open>try\<close>: a label of white space only raises\<close>
  "cluster_bytes_from_label label =
     (if take 4 (lower label) = ''auto'' then Inr None
      else
        (let num = takeWhile (\<lambda>c. \<not> is_space c) (dropWhile is_space label)
         in if num = [] then Inl (IndexError ''list index out of range'')
            else
              (case py_int num of
                 None \<Rightarrow> Inr None
               | Some n \<Rightarrow> Inr (Some (n * 1024)))))"

record gui_args =
  g_dry_run :: bool
  g_disk :: int
  g_label :: string
  g_fs :: string
  g_quick :: bool
  g_deep_clean :: bool
  g_cam_compat :: bool
  g_cluster_label :: string

record gui_result =
  gr_status :: string
  gr_disk :: int
  gr_fs :: string
  gr_label :: string
  gr_drive_letter :: string
  gr_dry_run :: bool

definition gui_size_bytes :: "'w genv \<Rightarrow> int \<Rightarrow> 'w gst \<Rightarrow> int option \<times> 'w gst" where
  \<comment> \<open>the size of the disk, \<open>None\<close> when the enumeration raises or the disk is not listed\<close>
  "gui_size_bytes g n s =
     (case gui_list_disks g s of
        (Inl e, s') \<Rightarrow> (None, s')
      | (Inr ds, s') \<Rightarrow>
          (case find (\<lambda>d. di_number d = n) ds of
             None \<Rightarrow> (None, s')
           | Some d \<Rightarrow> (Some (di_size d), s')))"

definition fits_fat32 :: "int option \<Rightarrow> bool" where
  \<comment> \<open>\<open>size_bytes is not None and size_bytes <= 32 * 1024**3\<close>\<close>
  "fits_fat32 size_bytes = (case size_bytes of None \<Rightarrow> False | Some n \<Rightarrow> n \<le> 32 * 1024 ^ 3)"

definition fat32_too_big_msg :: string where
  "fat32_too_big_msg =
     ''FAT32 selezionato ma la capacit'' @ [CHR 0xE0] @ '' supera 32 GB. Usa exFAT o AUTO.''"

definition gui_policy :: "gui_args \<Rightarrow> int option \<Rightarrow> py_exc + (string \<times> int option)" where
  \<comment> \<open>file system and cluster as \<open>_run_pipeline\<close> settles them before its first step\<close>
  "gui_policy a size_bytes =
     (let fs = upper (g_fs a);
          fs = (if fs = ''AUTO'' then (if fits_fat32 size_bytes then ''FAT32'' else ''exFAT'')
                else fs);
          fs = (if g_cam_compat a \<and> fits_fat32 size_bytes then ''FAT32'' else fs)
      in case (if g_cam_compat a then Inr (Some (32 * 1024))
               else cluster_bytes_from_label (g_cluster_label a)) of
           Inl e \<Rightarrow> Inl e
         | Inr cluster_bytes \<Rightarrow>
             if fs = ''FAT32'' \<and> \<not> fits_fat32 size_bytes
             then Inl (RuntimeError fat32_too_big_msg)
             else Inr (fs, cluster_bytes))"

definition cancel_msg :: string where
  "cancel_msg = ''Operazione annullata dall'' @ [CHR 0x27] @ ''utente.''"

definition gui_command ::
  "'w genv \<Rightarrow> bool \<Rightarrow> gui_cmd \<Rightarrow> string \<Rightarrow> 'w gst \<Rightarrow> (py_exc + proc option) \<times> 'w gst" where
  \<comment> \<open>\<open>if not dry_run: cp = run_powershell(ps); if cp.returncode != 0: raise ...\<close>\<close>
  "gui_command g dry_run c fallback s =
     (if dry_run then (Inr None, s)
      else
        (case run_powershell g c s of
           (Inl e, s') \<Rightarrow> (Inl e, s')
         | (Inr cp, s') \<Rightarrow>
             if returncode cp \<noteq> 0 then (Inl (RuntimeError (stderr_or cp fallback)), s')
             else (Inr (Some cp), s')))"

definition gui_drive_letter :: "proc option \<Rightarrow> py_exc + string" where
  "gui_drive_letter cp =
     (case cp of
        None \<Rightarrow> Inr ''Z''
      | Some p \<Rightarrow>
          (let l = filter (\<lambda>c. c \<noteq> CHR '':'')
                     (if strip (stdout p) = [] then ''X'' else strip (stdout p))
           in if length l \<noteq> 1
              then Inl (RuntimeError (''Lettera unit'' @ [CHR 0xE0] @ '' non valida: '' @
                          [CHR 0x27] @ l @ [CHR 0x27]))
              else Inr l))"

definition gui_steps ::
  "'w genv \<Rightarrow> gui_args \<Rightarrow> (nat \<Rightarrow> bool) \<Rightarrow> string \<Rightarrow> int option \<Rightarrow> 'w gst \<Rightarrow>
     (py_exc + gui_result) \<times> 'w gst" where
  "gui_steps g a cancelled fs cluster_bytes s =
     (let dry = g_dry_run a; n = g_disk a; label = strip (g_label a)
      in
      if cancelled 0 then (Inl (RuntimeError cancel_msg), s) else
      (case gui_command g dry (SetDisk n) ''Impossibile sbloccare il disco.'' s of
        (Inl e, s1) \<Rightarrow> (Inl e, s1)
      | (Inr u, s1) \<Rightarrow>
      (if cancelled 1 then (Inl (RuntimeError cancel_msg), s1) else
      (case gui_command g dry (ClearDisk n (g_deep_clean a))
              (if g_deep_clean a then ''Errore in Clear-Disk con rimozione dati.''
               else ''Errore in Clear-Disk.'') s1 of
        (Inl e, s2) \<Rightarrow> (Inl e, s2)
      | (Inr u, s2) \<Rightarrow>
      (if cancelled 2 then (Inl (RuntimeError cancel_msg), s2) else
      (case gui_command g dry (InitializeDisk n) ''Errore in Initialize-Disk.'' s2 of
        (Inl e, s3) \<Rightarrow> (Inl e, s3)
      | (Inr u, s3) \<Rightarrow>
      (if cancelled 3 then (Inl (RuntimeError cancel_msg), s3) else
      (case gui_command g dry (NewPartition n) ''Errore in New-Partition.'' s3 of
        (Inl e, s4) \<Rightarrow> (Inl e, s4)
      | (Inr cp, s4) \<Rightarrow>
      (case gui_drive_letter cp of
        Inl e \<Rightarrow> (Inl e, s4)
      | Inr drive_letter \<Rightarrow>
      (if cancelled 4 then (Inl (RuntimeError cancel_msg), s4) else
      (case gui_command g dry
              (FormatVolume drive_letter fs (if label = [] then None else Some label)
                 (case cluster_bytes of
                    None \<Rightarrow> None
                  | Some c \<Rightarrow> (if c \<noteq> 0 then Some c else None))
                 (\<not> g_quick a))
              ''Errore in Format-Volume.'' s4 of
        (Inl e, s5) \<Rightarrow> (Inl e, s5)
      | (Inr u, s5) \<Rightarrow>
      (if cancelled 5 then (Inl (RuntimeError cancel_msg), s5) else
       (Inr \<lparr>gr_status = ''OK'', gr_disk = n, gr_fs = fs, gr_label = label,
             gr_drive_letter = drive_letter, gr_dry_run = dry\<rparr>, s5)))))))))))))"

definition gui_run_pipeline ::
  "'w genv \<Rightarrow> gui_args \<Rightarrow> (nat \<Rightarrow> bool) \<Rightarrow> 'w gst \<Rightarrow> (py_exc + gui_result) \<times> 'w gst" where
  \<comment> \<open>\<open>Inl e\<close>: \<open>run\<close> catches \<open>e\<close> and emits \<open>failed\<close>; \<open>Inr\<close>: the dictionary emitted
      with \<open>finished\<close>\<close>
  "gui_run_pipeline g a cancelled s =
     (let (size_bytes, s0) = gui_size_bytes g (g_disk a) s
      in case gui_policy a size_bytes of
           Inl e \<Rightarrow> (Inl e, s0)
         | Inr (fs, cluster_bytes) \<Rightarrow> gui_steps g a cancelled fs cluster_bytes s0)"

section \<open>A fake command executor\<close>

text \<open>
  A scripted operating system for end-to-end runs: two removable disks, number 3 of
  32 000 000 000 bytes mounted as E and number 4 of 64 000 000 000 bytes mounted as F. It
  keeps the drive letters of each disk and the file system and label of each volume;
  formatting mounts the new volume as E. The commands in \<open>failing\<close> exit with status 1.
  Its JSON is a stand-in: the decoders map the three fixed answers to their rows.
\<close>

record fake_world =
  fk_letters :: "(int \<times> string list) list"
  fk_volumes :: "(string \<times> string \<times> string) list"

definition fake_start :: "fake_world st" where
  "fake_start =
     \<lparr>world = \<lparr>fk_letters = [(3, [''E'']), (4, [''F''])],
                fk_volumes = [(''E'', ''FAT32'', ''OLD''), (''F'', ''exFAT'', ''OLD'')]\<rparr>,
      spawned = []\<rparr>"

definition letters_on :: "fake_world \<Rightarrow> int \<Rightarrow> string list" where
  "letters_on w n = (case map_of (fk_letters w) n of None \<Rightarrow> [] | Some ls \<Rightarrow> ls)"

definition completed :: "string \<Rightarrow> proc" where
  "completed out = \<lparr>returncode = 0, stdout = out, stderr = []\<rparr>"

definition fake_exec :: "ps_cmd list \<Rightarrow> fake_world \<Rightarrow> ps_cmd \<Rightarrow> proc \<times> fake_world" where
  "fake_exec failing w c =
     (if c \<in> set failing
      then (\<lparr>returncode = 1, stdout = [], stderr = ''Access is denied.'' @ [CHR 0x0A]\<rparr>, w)
      else
        (case c of
           GetDisk \<Rightarrow> (completed ''DISKS'', w)
         | GetPartition n \<Rightarrow> (completed (if letters_on w n = [] then [] else ''PARTS''), w)
         | GetVolumeLetters n \<Rightarrow> (completed (concat (letters_on w n)), w)
         | GetVolume l \<Rightarrow>
             (completed (case map_of (fk_volumes w) l of
                           None \<Rightarrow> []
                         | Some (fs, label) \<Rightarrow> fs @ ''|'' @ label @ [CHR 0x0A]), w)
         | DismountVolumes n \<Rightarrow> (completed [], w\<lparr>fk_letters := (n, []) # fk_letters w\<rparr>)
         | ZeroFill n \<Rightarrow> (completed [], w\<lparr>fk_letters := (n, []) # fk_letters w\<rparr>)
         | ClearInit n style \<Rightarrow> (completed [], w\<lparr>fk_letters := (n, []) # fk_letters w\<rparr>)
         | CreateFormat n fs label au quick \<Rightarrow>
             (completed (''E'' @ [CHR 0x0A]),
              w\<lparr>fk_letters := (n, [''E'']) # fk_letters w,
                fk_volumes := (''E'', fs, label) # fk_volumes w\<rparr>)))"

definition fake_rows :: "disk_row list" where
  "fake_rows =
     [\<lparr>Number = 3, Size = Some 32000000000, BusType = Some ''USB'',
       FriendlyName = Some ''SD Card'', IsSystem = Some False, IsBoot = Some False,
       IsReadOnly = Some False, IsOffline = Some False, UniqueId = None,
       PartitionStyle = Some ''MBR''\<rparr>,
      \<lparr>Number = 4, Size = Some 64000000000, BusType = Some ''USB'',
       FriendlyName = Some ''SDXC'', IsSystem = Some False, IsBoot = Some False,
       IsReadOnly = Some False, IsOffline = Some False, UniqueId = None,
       PartitionStyle = Some ''MBR''\<rparr>]"

definition fake_env :: "ps_cmd list \<Rightarrow> fake_world env" where
  "fake_env failing =
     \<lparr>exec = fake_exec failing,
      file_io = (\<lambda>w l mb. (Inr ((if 0 < mb then mb else 0) * (1024 * 1024)), w)),
      loads_disks = (\<lambda>t. if t = ''DISKS'' then Some (JArray fake_rows) else None),
      loads_parts = (\<lambda>t. if t = ''PARTS'' then Some (JObject \<lparr>PartitionNumber = 1\<rparr>) else None),
      loads_letters = (\<lambda>t. Some (JArray (map (\<lambda>c. \<lparr>DriveLetter = Some [c]\<rparr>) t)))\<rparr>"

definition card_request :: args where
  \<comment> \<open>disk 3, file system AUTO, camera compatible, metadata wipe, quick, pre-authorized\<close>
  "card_request =
     \<lparr>arg_disk = 3, arg_label = ''my card'', arg_fs = ''AUTO'', arg_quick = True,
      arg_cluster = ClusterStr ''AUTO'', arg_gpt = False, arg_camera_compat = True,
      arg_wipe = ''metadata'', arg_test_io = False, arg_test_io_size = 8,
      arg_dry_run = False, arg_yes = True, arg_skip_verify = Some False\<rparr>"

definition read_only_extension :: "('w \<Rightarrow> 'o) \<Rightarrow> 'w st \<Rightarrow> 'w st \<Rightarrow> bool" where
  \<comment> \<open>from \<open>s\<close> to \<open>s'\<close> no mutating command was spawned and the observation \<open>obs\<close> of
      the operating system is the same\<close>
  "read_only_extension obs s s' =
     ((\<exists>cs. spawned s' = spawned s @ cs \<and> list_all (\<lambda>c. \<not> mutating c) cs) \<and>
      obs (world s') = obs (world s))"


definition fake_listing :: "disk list" where
  \<comment> \<open>what \<open>list_disks\<close> returns on the fake executor before any change\<close>
  "fake_listing =
     [\<lparr>number = 3, size = 32000000000, bus_type = ''USB'', friendly_name = ''SD Card'',
       is_system = False, is_boot = False, is_readonly = False, is_offline = False,
       unique_id = [], partition_style = ''MBR'', letters = [''E''],
       partitions = [\<lparr>PartitionNumber = 1\<rparr>]\<rparr>,
      \<lparr>number = 4, size = 64000000000, bus_type = ''USB'', friendly_name = ''SDXC'',
       is_system = False, is_boot = False, is_readonly = False, is_offline = False,
       unique_id = [], partition_style = ''MBR'', letters = [''F''],
       partitions = [\<lparr>PartitionNumber = 1\<rparr>]\<rparr>]"

definition fake_listed :: "fake_world st" where
  \<comment> \<open>the state after that enumeration: five queries, nothing changed\<close>
  "fake_listed =
     fake_start\<lparr>spawned := [GetDisk, GetPartition 3, GetVolumeLetters 3,
                             GetPartition 4, GetVolumeLetters 4]\<rparr>"

definition tiny_disk :: disk where
  \<comment> \<open>a removable disk of one MiB, no flag set\<close>
  "tiny_disk =
     \<lparr>number = 5, size = 1048576, bus_type = ''USB'', friendly_name = ''Stick'',
      is_system = False, is_boot = False, is_readonly = False, is_offline = False,
      unique_id = [], partition_style = ''MBR'', letters = [], partitions = []\<rparr>"

definition camera_gui_request :: gui_args where
  \<comment> \<open>the graphical tool asked for exFAT with 4 KB clusters, camera compatible\<close>
  "camera_gui_request =
     \<lparr>g_dry_run = False, g_disk = 3, g_label = ''my card'', g_fs = ''exFAT'', g_quick = True,
      g_deep_clean = False, g_cam_compat = True, g_cluster_label = ''4 KB''\<rparr>"

section \<open>Properties\<close>

subsection \<open>Cluster policy\<close>

text \<open>The comparisons on \<open>gb\<close> are comparisons of the size in bytes.\<close>

lemma GiB_le: "GiB b \<le> of_int k \<longleftrightarrow> b \<le> k * 1024 ^ 3"
proof -
  have "GiB b \<le> of_int k \<longleftrightarrow> real_of_int b \<le> real_of_int (k * 1024 ^ 3)"
    by (simp add: GiB_def field_simps)
  then show ?thesis by (simp only: of_int_le_iff)
qed

text \<open>
  C10. For a file system name whose upper-casing is not \<open>FAT32\<close>, whatever the name
  and whatever the size, \<open>suggest_cluster\<close> answers with the exFAT schedule: 131072 bytes
  up to 64 GiB, 262144 bytes up to 256 GiB, 524288 bytes above.
\<close>
theorem suggest_cluster_exfat_schedule:
  "upper fs \<noteq> ''FAT32'' \<Longrightarrow>
     suggest_cluster fs bytes_size =
       (if bytes_size \<le> 64 * 1024 ^ 3 then 131072
        else if bytes_size \<le> 256 * 1024 ^ 3 then 262144
        else 524288)"
  using GiB_le [of bytes_size 64] GiB_le [of bytes_size 256]
  by (simp add: suggest_cluster_def Let_def)

theorem suggest_cluster_exfat_schedule_witness:
  "upper ''NTFS'' \<noteq> ''FAT32'' \<and> suggest_cluster ''NTFS'' 68719476736 = 131072 \<and>
   upper ''exFAT'' \<noteq> ''FAT32'' \<and> suggest_cluster ''exFAT'' 68719476737 = 262144 \<and>
   upper ''ext4'' \<noteq> ''FAT32'' \<and> suggest_cluster ''ext4'' 274877906945 = 524288"
proof -
  have u: "upper ''NTFS'' \<noteq> ''FAT32''" "upper ''exFAT'' \<noteq> ''FAT32''" "upper ''ext4'' \<noteq> ''FAT32''"
    by (simp_all add: upper_def upper_char_def)
  show ?thesis
    using u suggest_cluster_exfat_schedule [OF u(1), of 68719476736]
      suggest_cluster_exfat_schedule [OF u(2), of 68719476737]
      suggest_cluster_exfat_schedule [OF u(3), of 274877906945]
    by simp
qed

subsection \<open>Safety gate\<close>

text \<open>What each tool accepts. A size of zero stands for an unknown size.\<close>

lemma ensure_safe_target_english:
  "ensure_safe_target English d = Inr () \<longleftrightarrow>
     \<not> is_system d \<and> \<not> is_boot d \<and> \<not> is_readonly d \<and>
     (size d = 0 \<or> 64 * 1024 * 1024 \<le> size d)"
  by (auto simp: ensure_safe_target_def)

lemma ensure_safe_target_italian:
  "ensure_safe_target Italian d = Inr () \<longleftrightarrow>
     \<not> is_system d \<and> \<not> is_boot d \<and> \<not> is_readonly d"
  by (auto simp: ensure_safe_target_def)

text \<open>
  C1. The gate is to reject a disk whose size is known and below 64 MiB. The English tool
  does, as the characterisation above shows; the Italian tool has no size check and lets a
  disk of one MiB through.
\<close>
theorem italian_gate_accepts_tiny_disk:
  "ensure_safe_target Italian tiny_disk = Inr () \<and>
   ensure_safe_target English tiny_disk =
     Inl (ValueError ''Disk is too small to format (less than 64 MB).'')"
  by (simp add: ensure_safe_target_def tiny_disk_def)

subsection \<open>Labels\<close>

text \<open>
  C8. Sanitizing twice is to give the same label as sanitizing once. Both tools cut the
  label to its maximal length after trimming it, so a cut that ends on a space (or on a
  dot, outside the camera mode) leaves a label that a second pass trims again.
\<close>
theorem sanitize_label_twice_differs:
  "sanitize_label English ''ABCDEFGHIJ K'' ''FAT32'' True = ''ABCDEFGHIJ '' \<and>
   sanitize_label English ''ABCDEFGHIJ '' ''FAT32'' True = ''ABCDEFGHIJ'' \<and>
   sanitize_label Italian ''ABCDEFGHIJ K'' ''FAT32'' True = ''ABCDEFGHIJ '' \<and>
   sanitize_label Italian ''ABCDEFGHIJ '' ''FAT32'' True = ''ABCDEFGHIJ'' \<and>
   sanitize_label English ''0123456789012345678901234567890.b'' ''exFAT'' False
     = ''0123456789012345678901234567890.'' \<and>
   sanitize_label English ''0123456789012345678901234567890.'' ''exFAT'' False
     = ''0123456789012345678901234567890'' \<and>
   sanitize_label Italian ''0123456789012345678901234567890.b'' ''exFAT'' False
     = ''0123456789012345678901234567890.'' \<and>
   sanitize_label Italian ''0123456789012345678901234567890.'' ''exFAT'' False
     = ''0123456789012345678901234567890''"
  by code_simp

subsection \<open>The enumeration is read-only\<close>

text \<open>
  The three queries of \<open>list_disks\<close> are not mutating, so the enumeration extends the
  list of spawned processes by read-only commands and keeps every observation that such
  commands keep.
\<close>

lemma roe_refl: "read_only_extension obs s s"
  by (simp add: read_only_extension_def)

lemma roe_trans:
  assumes "read_only_extension obs s s1" and "read_only_extension obs s1 s2"
  shows "read_only_extension obs s s2"
proof -
  from assms obtain cs ds where
    a: "spawned s1 = spawned s @ cs" "list_all (\<lambda>c. \<not> mutating c) cs"
    and b: "spawned s2 = spawned s1 @ ds" "list_all (\<lambda>c. \<not> mutating c) ds"
    and o: "obs (world s1) = obs (world s)" "obs (world s2) = obs (world s1)"
    unfolding read_only_extension_def by blast
  have "spawned s2 = spawned s @ (cs @ ds)" using a b by simp
  moreover have "list_all (\<lambda>c. \<not> mutating c) (cs @ ds)" using a b by simp
  ultimately show ?thesis
    unfolding read_only_extension_def using o by metis
qed

lemma run_ps_roe:
  assumes pres: "\<forall>w c. \<not> mutating c \<longrightarrow> obs (snd (exec env w c)) = obs w"
    and c: "\<not> mutating c"
  shows "read_only_extension obs s (snd (run_ps env c d s))"
proof (cases d)
  case True
  then show ?thesis by (simp add: run_ps_def roe_refl)
next
  case False
  obtain p w where e: "exec env (world s) c = (p, w)" by (cases "exec env (world s) c")
  have "obs w = obs (world s)" using pres c e by (metis snd_conv)
  then show ?thesis
    using False e c by (simp add: run_ps_def read_only_extension_def Let_def)
qed

lemma ps_json_snd: "snd (ps_json l env c d s) = snd (run_ps env c d s)"
  by (simp add: ps_json_def Let_def split: prod.splits sum.splits option.splits)

lemma ps_json_roe:
  assumes "\<forall>w c. \<not> mutating c \<longrightarrow> obs (snd (exec env w c)) = obs w"
    and "\<not> mutating c"
  shows "read_only_extension obs s (snd (ps_json l env c d s))"
  using run_ps_roe [OF assms] by (simp add: ps_json_snd)

lemma list_disks_loop_roe:
  assumes pres: "\<forall>w c. \<not> mutating c \<longrightarrow> obs (snd (exec env w c)) = obs w"
  shows "read_only_extension obs s (snd (list_disks_loop v env d rows results s))"
proof (induction rows arbitrary: results s)
  case Nil
  show ?case by (simp add: roe_refl)
next
  case (Cons r rows)
  let ?a = "ps_json (loads_parts env) env (GetPartition (Number r)) d s"
  have a: "read_only_extension obs s (snd ?a)"
    by (rule ps_json_roe [OF pres]) simp
  let ?b = "ps_json (loads_letters env) env (GetVolumeLetters (Number r)) d (snd ?a)"
  have b: "read_only_extension obs s (snd ?b)"
    by (rule roe_trans [OF a]) (rule ps_json_roe [OF pres], simp)
  have step: "\<And>s1 res. read_only_extension obs s s1 \<Longrightarrow>
      read_only_extension obs s (snd (list_disks_loop v env d rows res s1))"
    using roe_trans Cons.IH by blast
  show ?case
    using a b by (auto simp: step split: prod.splits sum.splits if_splits)
qed

lemma list_disks_roe:
  assumes pres: "\<forall>w c. \<not> mutating c \<longrightarrow> obs (snd (exec env w c)) = obs w"
  shows "read_only_extension obs s (snd (list_disks v env d s))"
proof -
  let ?a = "ps_json (loads_disks env) env GetDisk d s"
  have a: "read_only_extension obs s (snd ?a)"
    by (rule ps_json_roe [OF pres]) simp
  have step: "\<And>s1 rows. read_only_extension obs s s1 \<Longrightarrow>
      read_only_extension obs s (snd (list_disks_loop v env d rows [] s1))"
    using roe_trans list_disks_loop_roe [OF pres] by blast
  show ?thesis
    using a by (auto simp: list_disks_def step split: prod.splits sum.splits)
qed

lemma fake_list_disks:
  "list_disks English (fake_env []) False fake_start = (Inr fake_listing, fake_listed)"
  "list_disks Italian (fake_env []) False fake_start = (Inr fake_listing, fake_listed)"
  "list_disks English (fake_env [DismountVolumes 3]) False fake_start =
     (Inr fake_listing, fake_listed)"
  by code_simp+

lemma fake_exec_read_only: "\<not> mutating c \<Longrightarrow> snd (fake_exec [] w c) = w"
  by (cases c) (simp_all add: fake_exec_def)

subsection \<open>Dry run\<close>

text \<open>
  In dry-run mode \<open>run_ps\<close> spawns nothing and returns an empty output, which \<open>ps_json\<close>
  reads as an empty list: the enumeration lists no disk. The graphical tool enumerates for
  real and skips the commands of its steps only.
\<close>

lemma strip_Nil: "strip [] = []"
  by (simp add: strip_def)

lemma run_ps_dry: "run_ps env c True s = (Inr Dummy, s)"
  by (simp add: run_ps_def)

lemma ps_json_dry: "ps_json l env c True s = (Inr (JArray []), s)"
  by (simp add: ps_json_def run_ps_dry Dummy_def strip_Nil)

lemma list_disks_dry: "list_disks v env True s = (Inr [], s)"
  by (simp add: list_disks_def ps_json_dry)

lemma gui_dry_run_completes:
  assumes "g_dry_run a" and "\<forall>k. \<not> cancelled k"
  shows "gui_steps g a cancelled fs cluster_bytes s =
           (Inr \<lparr>gr_status = ''OK'', gr_disk = g_disk a, gr_fs = fs,
                 gr_label = strip (g_label a), gr_drive_letter = ''Z'', gr_dry_run = True\<rparr>, s)"
  using assms by (simp add: gui_steps_def gui_command_def gui_drive_letter_def Let_def)

text \<open>
  C3. A dry run is to spawn no mutating command and still to return a complete result
  with status OK. The first half holds, for no process is spawned at all; but the
  enumeration runs in dry-run mode too and lists no disk, so every dry run of the command
  line tools ends with the disk reported as not found and no result returned.
\<close>
theorem dry_run_reports_disk_not_found:
  "arg_dry_run a \<Longrightarrow>
     run_format_pipeline v env a typed s = (Inl (ValueError (not_found_msg v (arg_disk a))), s)"
  by (simp add: run_format_pipeline_def list_disks_dry)

theorem dry_run_reports_disk_not_found_witness:
  "arg_dry_run (card_request\<lparr>arg_dry_run := True\<rparr>) \<and>
   run_format_pipeline English (fake_env []) (card_request\<lparr>arg_dry_run := True\<rparr>) [] fake_start =
     (Inl (ValueError ''Disk #3 not found.''), fake_start)"
proof -
  have h: "arg_dry_run (card_request\<lparr>arg_dry_run := True\<rparr>)" by simp
  have m: "not_found_msg English (arg_disk (card_request\<lparr>arg_dry_run := True\<rparr>)) = ''Disk #3 not found.''"
    by code_simp
  show ?thesis
    using h dry_run_reports_disk_not_found [OF h, of English "fake_env []" "[]" fake_start] m
    by simp
qed

subsection \<open>Confirmation\<close>

lemma find_number: "find (\<lambda>d. number d = n) disks = Some target \<Longrightarrow> number target = n"
  by (auto simp: find_Some_iff)

text \<open>
  C2 as stated asks for a result with status ERROR and no steps whenever the typed line
  differs from the token. With a wrong token the function returns nothing: the exception
  leaves it. And a line that differs from the token by surrounding white space only is
  accepted: the run goes on and formats.
\<close>
theorem wrong_token_returns_no_result:
  "fst (run_format_pipeline English (fake_env []) (card_request\<lparr>arg_yes := False\<rparr>) ''yes''
         fake_start) =
     Inl (RuntimeError ''Confirmation mismatch. Operation cancelled.'') \<and>
   '' CONFIRM-3 '' \<noteq> ''CONFIRM-3'' \<and>
   map_sum id r_status
     (fst (run_format_pipeline English (fake_env []) (card_request\<lparr>arg_yes := False\<rparr>)
             '' CONFIRM-3 '' fake_start)) = Inr (Some ''OK'')"
  by code_simp

text \<open>
  C2, as amended. When the run is not pre-authorized and the typed line, stripped of
  surrounding white space, is not \<open>CONFIRM-n\<close> for the disk number \<open>n\<close>, the run raises
  and returns no result; no mutating command is spawned, and whatever the read-only
  queries leave unchanged (the drive letters of the target, say) is unchanged. When the
  disk is found, passes the safety gate and the policy resolves, the exception raised is
  the confirmation mismatch.
\<close>
theorem confirmation_mismatch_raises:
  assumes no: "\<not> arg_yes a"
    and tok: "strip typed \<noteq> ''CONFIRM-'' @ str_int (arg_disk a)"
    and pres: "\<forall>w c. \<not> mutating c \<longrightarrow> obs (snd (exec env w c)) = obs w"
  shows "(\<exists>e. fst (run_format_pipeline v env a typed s) = Inl e) \<and>
         read_only_extension obs s (snd (run_format_pipeline v env a typed s)) \<and>
         (\<forall>disks s0 target p.
            list_disks v env (arg_dry_run a) s = (Inr disks, s0) \<and>
            find (\<lambda>d. number d = arg_disk a) disks = Some target \<and>
            ensure_safe_target v target = Inr () \<and>
            resolve_policy v a target = Inr p \<longrightarrow>
            run_format_pipeline v env a typed s =
              (Inl (RuntimeError (confirm_mismatch_msg v)), s0))"
proof -
  obtain x s0 where l: "list_disks v env (arg_dry_run a) s = (x, s0)"
    by (cases "list_disks v env (arg_dry_run a) s")
  have q: "read_only_extension obs s s0"
    using list_disks_roe [OF pres, of s v "arg_dry_run a"] l by simp
  have run: "run_format_pipeline v env a typed s =
      (case x of
         Inl e \<Rightarrow> (Inl e, s0)
       | Inr disks \<Rightarrow>
           (case find (\<lambda>d. number d = arg_disk a) disks of
              None \<Rightarrow> (Inl (ValueError (not_found_msg v (arg_disk a))), s0)
            | Some target \<Rightarrow>
                (case ensure_safe_target v target of
                   Inl e \<Rightarrow> (Inl e, s0)
                 | Inr u \<Rightarrow>
                     (case resolve_policy v a target of
                        Inl e \<Rightarrow> (Inl e, s0)
                      | Inr p \<Rightarrow> (Inl (RuntimeError (confirm_mismatch_msg v)), s0)))))"
    using no tok l
    by (auto simp: run_format_pipeline_def dest: find_number
             split: sum.splits option.splits prod.splits)
  have 1: "\<exists>e. fst (run_format_pipeline v env a typed s) = Inl e"
    unfolding run by (auto split: sum.splits option.splits)
  have 2: "snd (run_format_pipeline v env a typed s) = s0"
    unfolding run by (auto split: sum.splits option.splits)
  have 3: "\<forall>disks s0' target p.
            list_disks v env (arg_dry_run a) s = (Inr disks, s0') \<and>
            find (\<lambda>d. number d = arg_disk a) disks = Some target \<and>
            ensure_safe_target v target = Inr () \<and>
            resolve_policy v a target = Inr p \<longrightarrow>
            run_format_pipeline v env a typed s =
              (Inl (RuntimeError (confirm_mismatch_msg v)), s0')"
    unfolding run using l by auto
  show ?thesis using 1 2 3 q by simp
qed

theorem confirmation_mismatch_raises_witness:
  "\<not> arg_yes (card_request\<lparr>arg_yes := False\<rparr>) \<and>
   strip ''yes'' \<noteq> ''CONFIRM-'' @ str_int (arg_disk (card_request\<lparr>arg_yes := False\<rparr>)) \<and>
   run_format_pipeline English (fake_env []) (card_request\<lparr>arg_yes := False\<rparr>) ''yes''
     fake_start =
     (Inl (RuntimeError ''Confirmation mismatch. Operation cancelled.''), fake_listed) \<and>
   letters_on (world fake_listed) 3 = letters_on (world fake_start) 3"
proof -
  let ?a = "card_request\<lparr>arg_yes := False\<rparr>"
  have h1: "\<not> arg_yes ?a" by simp
  have h2: "strip ''yes'' \<noteq> ''CONFIRM-'' @ str_int (arg_disk ?a)" by code_simp
  have h3: "\<forall>w c. \<not> mutating c \<longrightarrow>
      (\<lambda>w. letters_on w 3) (snd (exec (fake_env []) w c)) = (\<lambda>w. letters_on w 3) w"
    by (simp add: fake_env_def fake_exec_read_only)
  note t = confirmation_mismatch_raises [OF h1 h2 h3, of English fake_start]
  have l: "list_disks English (fake_env []) (arg_dry_run ?a) fake_start =
             (Inr fake_listing, fake_listed)"
    using fake_list_disks(1) by (simp add: card_request_def)
  have f: "find (\<lambda>d. number d = arg_disk ?a) fake_listing = Some (hd fake_listing)"
    by code_simp
  have e: "ensure_safe_target English (hd fake_listing) = Inr ()" by code_simp
  have p: "resolve_policy English ?a (hd fake_listing) =
             Inr (''FAT32'', ''MY CARD'', Some 32768, ''MBR'')"
    by code_simp
  have m: "confirm_mismatch_msg English = ''Confirmation mismatch. Operation cancelled.''"
    by (simp add: confirm_mismatch_msg_def)
  from t l f e p have run: "run_format_pipeline English (fake_env []) ?a ''yes'' fake_start =
     (Inl (RuntimeError (confirm_mismatch_msg English)), fake_listed)"
    by blast
  have o: "letters_on (world fake_listed) 3 = letters_on (world fake_start) 3"
    using t run by (simp add: read_only_extension_def)
  show ?thesis using h1 h2 run m o by simp
qed

subsection \<open>Dismount\<close>




subsection \<open>Status and error of a result\<close>










lemma pipeline_body_completes_with_skip_verify:
  "pipeline_body v env a target fs label cluster style r s = ((None, r'), s') \<Longrightarrow>
     arg_skip_verify a \<noteq> None"
  by (auto simp: pipeline_body_def verify_step_def Let_def
           split: prod.splits sum.splits option.splits)

lemma undeclared_skip_verify_ends_in_error:
  assumes "arg_skip_verify a = None"
    and "run_format_pipeline v env a typed s = (Inr r, s')"
  shows "r_status r = Some ''ERROR''"
  using assms
  by (auto simp: run_format_pipeline_def dest: pipeline_body_completes_with_skip_verify
           split: prod.splits sum.splits option.splits if_splits)



subsection \<open>FAT32 above 32 GiB\<close>

text \<open>
  The graphical tool resolves to FAT32 only when the size is known and at most 32 GiB;
  a request for FAT32 on another disk fails before any of its steps, with at most the
  enumeration spawned.
\<close>

lemma gui_policy_fat32_fits:
  "gui_policy a sz = Inr (''FAT32'', cb) \<Longrightarrow> fits_fat32 sz"
  by (auto simp: gui_policy_def Let_def split: if_splits sum.splits)

lemma gui_policy_fat32_too_big:
  assumes "upper (g_fs a) = ''FAT32''" and "\<not> fits_fat32 sz"
  shows "\<exists>e. gui_policy a sz = Inl e"
  using assms by (auto simp: gui_policy_def Let_def split: sum.splits)

lemma gui_size_bytes_spawns:
  "gspawned (snd (gui_size_bytes g n s)) = gspawned s \<or>
   gspawned (snd (gui_size_bytes g n s)) = gspawned s @ [ListDisksScript]"
  by (auto simp: gui_size_bytes_def gui_list_disks_def run_powershell_json_def
                 run_powershell_def Let_def
           split: prod.splits sum.splits option.splits if_splits)

lemma gui_rejects_fat32_over_32GiB:
  assumes "upper (g_fs a) = ''FAT32''"
    and "\<not> fits_fat32 (fst (gui_size_bytes g (g_disk a) s))"
  shows "(\<exists>e. fst (gui_run_pipeline g a cancelled s) = Inl e) \<and>
         (\<exists>cs. gspawned (snd (gui_run_pipeline g a cancelled s)) = gspawned s @ cs \<and>
               list_all (\<lambda>c. \<not> gui_mutating c) cs)"
proof -
  obtain sz s0 where z: "gui_size_bytes g (g_disk a) s = (sz, s0)"
    by (cases "gui_size_bytes g (g_disk a) s")
  with assms obtain e where "gui_policy a sz = Inl e"
    using gui_policy_fat32_too_big [of a sz] by auto
  with z have run: "gui_run_pipeline g a cancelled s = (Inl e, s0)"
    by (simp add: gui_run_pipeline_def)
  from z gui_size_bytes_spawns [of g "g_disk a" s]
  have "gspawned s0 = gspawned s @ [] \<or> gspawned s0 = gspawned s @ [ListDisksScript]"
    by simp
  then have "\<exists>cs. gspawned s0 = gspawned s @ cs \<and> list_all (\<lambda>c. \<not> gui_mutating c) cs"
  proof
    assume "gspawned s0 = gspawned s @ []"
    then show ?thesis by (intro exI [of _ "[]"]) simp
  next
    assume "gspawned s0 = gspawned s @ [ListDisksScript]"
    then show ?thesis by (intro exI [of _ "[ListDisksScript]"]) simp
  qed
  with run show ?thesis by simp
qed

lemma cli_resolves_fat32_at_any_size:
  "upper (arg_fs a) = ''FAT32'' \<Longrightarrow> arg_cluster a = ClusterNone \<Longrightarrow>
     resolve_policy v a target =
       Inr (''FAT32'', sanitize_label v (arg_label a) ''FAT32'' (arg_camera_compat a), None,
            if arg_gpt a then ''GPT'' else ''MBR'')"
  by (simp add: resolve_policy_def select_cluster_def Let_def)

text \<open>
  C4. FAT32 on a disk above 32 GiB is to be refused before the confirmation and before
  any mutation. The graphical tool refuses it, as shown above; the command line tool has no
  such check: asked for FAT32 on the disk of 64 000 000 000 bytes it dismounts, clears and
  formats.
\<close>
theorem cli_formats_fat32_on_64GB:
  "fst (run_format_pipeline English (fake_env [])
          (card_request\<lparr>arg_disk := 4, arg_fs := ''FAT32'', arg_camera_compat := False\<rparr>) []
          fake_start) =
     Inr \<lparr>r_disk = 4, r_size = 64000000000, r_fs = ''FAT32'', r_style = ''MBR'',
          r_label = ''my card'', r_cluster = Some 32768, r_quick = True,
          r_wipe = ''metadata'', r_camera_compat = False, r_dry_run = False,
          r_steps = [''dismount_volumes'', ''clear_and_init'', ''create_partition_and_format''],
          r_drive_letter = Some ''E'', r_verify = Some ''OK'', r_test_io = None,
          r_status = Some ''OK'', r_error = None\<rparr> \<and>
   spawned (snd (run_format_pipeline English (fake_env [])
          (card_request\<lparr>arg_disk := 4, arg_fs := ''FAT32'', arg_camera_compat := False\<rparr>) []
          fake_start)) =
     [GetDisk, GetPartition 3, GetVolumeLetters 3, GetPartition 4, GetVolumeLetters 4,
      DismountVolumes 4, ClearInit 4 ''MBR'',
      CreateFormat 4 ''FAT32'' ''my card'' (Some 32768) True, GetVolume ''E'']"
  by code_simp

subsection \<open>Camera compatibility\<close>

lemma gui_policy_camera:
  "g_cam_compat a \<Longrightarrow>
     gui_policy a sz =
       (if fits_fat32 sz then Inr (''FAT32'', Some 32768)
        else if upper (g_fs a) = ''FAT32'' then Inl (RuntimeError fat32_too_big_msg)
        else Inr (if upper (g_fs a) = ''AUTO'' then ''exFAT'' else upper (g_fs a), Some 32768))"
  by (simp add: gui_policy_def Let_def)

text \<open>
  C5 as stated covers every request. In the command line tool a camera-compatible request
  for exFAT with 4096-byte clusters on a disk that would fit FAT32 keeps exFAT and 4096.
\<close>
theorem cli_camera_flag_keeps_exfat:
  "arg_camera_compat (card_request\<lparr>arg_fs := ''exFAT'', arg_cluster := ClusterInt 4096\<rparr>) \<and>
   size (hd fake_listing) \<le> 32 * 1024 ^ 3 \<and>
   resolve_policy English (card_request\<lparr>arg_fs := ''exFAT'', arg_cluster := ClusterInt 4096\<rparr>)
     (hd fake_listing) = Inr (''EXFAT'', ''MY CARD'', Some 4096, ''MBR'')"
  by code_simp

text \<open>
  C5, as amended. In the graphical tool a camera-compatible request gets FAT32 whenever
  the size of the disk is known and at most 32 GiB, and a cluster of 32768 bytes whenever
  the policy resolves, whatever cluster was selected. In the command line tools the flag
  selects the label sanitization only: file system, cluster and partition style are
  those of the same request with the flag changed.
\<close>
theorem camera_compat_by_front_end:
  "(g_cam_compat a \<longrightarrow>
      (fits_fat32 sz \<longrightarrow> gui_policy a sz = Inr (''FAT32'', Some 32768)) \<and>
      (\<forall>fs cb. gui_policy a sz = Inr (fs, cb) \<longrightarrow> cb = Some 32768)) \<and>
   (\<forall>fs label cluster style.
      resolve_policy v b target = Inr (fs, label, cluster, style) \<longrightarrow>
      label = sanitize_label v (arg_label b) fs (arg_camera_compat b) \<and>
      resolve_policy v (b\<lparr>arg_camera_compat := c\<rparr>) target =
        Inr (fs, sanitize_label v (arg_label b) fs c, cluster, style))"
proof -
  have g: "g_cam_compat a \<longrightarrow>
      (fits_fat32 sz \<longrightarrow> gui_policy a sz = Inr (''FAT32'', Some 32768)) \<and>
      (\<forall>fs cb. gui_policy a sz = Inr (fs, cb) \<longrightarrow> cb = Some 32768)"
    by (auto simp: gui_policy_camera split: if_splits)
  have c: "\<forall>fs label cluster style.
      resolve_policy v b target = Inr (fs, label, cluster, style) \<longrightarrow>
      label = sanitize_label v (arg_label b) fs (arg_camera_compat b) \<and>
      resolve_policy v (b\<lparr>arg_camera_compat := c\<rparr>) target =
        Inr (fs, sanitize_label v (arg_label b) fs c, cluster, style)"
    by (auto simp: resolve_policy_def Let_def split: sum.splits)
  from g c show ?thesis by blast
qed

theorem camera_compat_by_front_end_witness:
  "g_cam_compat camera_gui_request \<and> fits_fat32 (Some 32000000000) \<and>
   gui_policy camera_gui_request (Some 32000000000) = Inr (''FAT32'', Some 32768) \<and>
   resolve_policy English (card_request\<lparr>arg_fs := ''exFAT'', arg_cluster := ClusterInt 4096\<rparr>)
     (hd fake_listing) = Inr (''EXFAT'', ''MY CARD'', Some 4096, ''MBR'') \<and>
   resolve_policy English
     (card_request\<lparr>arg_fs := ''exFAT'', arg_cluster := ClusterInt 4096,
                   arg_camera_compat := False\<rparr>)
     (hd fake_listing) = Inr (''EXFAT'', ''my card'', Some 4096, ''MBR'')"
proof -
  let ?b = "card_request\<lparr>arg_fs := ''exFAT'', arg_cluster := ClusterInt 4096\<rparr>"
  note t = camera_compat_by_front_end [of camera_gui_request "Some 32000000000" English ?b
             "hd fake_listing" False]
  have h1: "g_cam_compat camera_gui_request" by (simp add: camera_gui_request_def)
  have h2: "fits_fat32 (Some 32000000000)" by (simp add: fits_fat32_def)
  have h3: "resolve_policy English ?b (hd fake_listing) =
              Inr (''EXFAT'', ''MY CARD'', Some 4096, ''MBR'')"
    by code_simp
  have l: "sanitize_label English (arg_label ?b) ''EXFAT'' False = ''my card''" by code_simp
  from t h1 h2 have g: "gui_policy camera_gui_request (Some 32000000000) =
      Inr (''FAT32'', Some 32768)"
    by blast
  from t h3 have "resolve_policy English (?b\<lparr>arg_camera_compat := False\<rparr>) (hd fake_listing) =
        Inr (''EXFAT'', sanitize_label English (arg_label ?b) ''EXFAT'' False, Some 4096, ''MBR'')"
    by blast
  with l have c: "resolve_policy English (?b\<lparr>arg_camera_compat := False\<rparr>) (hd fake_listing) =
        Inr (''EXFAT'', ''my card'', Some 4096, ''MBR'')"
    by simp
  from h1 h2 g h3 c show ?thesis by simp
qed

subsection \<open>End-to-end scenario\<close>



end
